theory Spec2Isabelle
  imports Complex_Main
begin

section \<open>Preliminaries: exceptions, bytes and text\<close>

text \<open>
  The module \<^verbatim>\<open>keri.core.coring\<close> is embedded function by function. A Python
  \<^verbatim>\<open>bytes\<close> value is a \<^typ>\<open>char list\<close> (one \<^typ>\<open>char\<close> per byte) and a Python
  \<^verbatim>\<open>str\<close> is the \<^typ>\<open>char list\<close> of its UTF-8 encoding, so that
  \<^verbatim>\<open>.encode("utf-8")\<close> is the identity. Every \<^verbatim>\<open>raise\<close> of the source is a
  value \<open>Inl e\<close> of a sum type, with \<open>e\<close> the class of the exception.
\<close>

datatype error =
    ValueError
  | ValidationError
  | VersionError
  | EmptyMaterialError
  | DerivationError
  | ShortageError
  | KeyError
  | IndexError
  | UnicodeDecodeError
  | ZeroDivisionError
  | BinasciiError
  | AttributeError
  | TypeError

text \<open>The lookup \<^verbatim>\<open>d[k]\<close> in a dict raises \<^verbatim>\<open>KeyError\<close> on a missing key.\<close>

definition getitem :: "('k \<rightharpoonup> 'v) \<Rightarrow> 'k \<Rightarrow> error + 'v" where
  "getitem d k = (case d k of None \<Rightarrow> Inl KeyError | Some v \<Rightarrow> Inr v)"

text \<open>Sequencing of computations that may raise: the first exception ends the run.\<close>

fun ebind :: "error + 'a \<Rightarrow> ('a \<Rightarrow> error + 'b) \<Rightarrow> error + 'b" where
  "ebind (Inl e) f = Inl e"
| "ebind (Inr x) f = f x"

section \<open>Version strings\<close>

definition Serials :: "string list" where
  "Serials = [''JSON'', ''MGPK'', ''CBOR'']"

definition VERRAWSIZE :: nat where
  "VERRAWSIZE = 6"



definition hexchars :: string where
  "hexchars = ''0123456789abcdef''"

text \<open>\<^verbatim>\<open>"{:x}".format(n)\<close> for a non-negative \<open>n\<close>: lowercase hex digits, no leading zero.\<close>

fun fmt_x :: "nat \<Rightarrow> string" where
  "fmt_x n = (if n < 16 then [hexchars ! n] else fmt_x (n div 16) @ [hexchars ! (n mod 16)])"

declare fmt_x.simps [simp del]

text \<open>\<^verbatim>\<open>"{:0{}x}".format(n, w)\<close>: the same, filled with zeros on the left up to width \<open>w\<close>;
  a number with more than \<open>w\<close> digits is written in full.\<close>

definition fmt_0x :: "nat \<Rightarrow> nat \<Rightarrow> string" where
  "fmt_0x w n = replicate (w - length (fmt_x n)) (CHR ''0'') @ fmt_x n"

text \<open>
  \<^verbatim>\<open>Versify(version, kind, size)\<close>. The default \<^verbatim>\<open>Version\<close> is imported from
  \<^verbatim>\<open>keri.kering\<close>, which is not part of the sources at hand: it is the parameter
  \<open>Version\<close> here and wherever the module reads it. Version components and sizes are
  non-negative integers.
\<close>

definition Versify :: "nat \<times> nat \<Rightarrow> (nat \<times> nat) option \<Rightarrow> string \<Rightarrow> nat \<Rightarrow> error + string" where
  "Versify Version version kind sz =
     (if kind \<notin> set Serials then Inl ValueError
      else let v = (case version of None \<Rightarrow> Version | Some v \<Rightarrow> v)
           in Inr (''KERI'' @ fmt_x (fst v) @ fmt_x (snd v) @ kind @ fmt_0x VERRAWSIZE sz @ ''_''))"

text \<open>
  The regular expression \<^verbatim>\<open>VEREX\<close>,
  \<^verbatim>\<open>KERI(?P<major>[0-9a-f])(?P<minor>[0-9a-f])(?P<kind>[A-Z]{4})(?P<size>[0-9a-f]{6})_\<close>.
  \<open>Rever_match\<close> is \<^verbatim>\<open>Rever.match\<close>: a match at the start of the text, which may go on
  after the match. It returns the four groups. \<open>Rever_search\<close> is \<^verbatim>\<open>Rever.search\<close>: the
  leftmost match, with the offset where it starts.
\<close>

definition is_hexlow :: "char \<Rightarrow> bool" where
  "is_hexlow c = (c \<in> set hexchars)"

definition is_upper :: "char \<Rightarrow> bool" where
  "is_upper c = (c \<in> set ''ABCDEFGHIJKLMNOPQRSTUVWXYZ'')"

definition Rever_match :: "string \<Rightarrow> (string \<times> string \<times> string \<times> string) option" where
  "Rever_match s =
     (if 17 \<le> length s \<and> take 4 s = ''KERI'' \<and> is_hexlow (s ! 4) \<and> is_hexlow (s ! 5)
         \<and> list_all is_upper (take 4 (drop 6 s)) \<and> list_all is_hexlow (take 6 (drop 10 s))
         \<and> s ! 16 = CHR ''_''
      then Some ([s ! 4], [s ! 5], take 4 (drop 6 s), take 6 (drop 10 s))
      else None)"


text \<open>
  \<^verbatim>\<open>int(s, 16)\<close> on a group that the pattern of a version string has matched, which
  is a text of hex digits and nothing else: \<open>int16\<close> reads plain digits. The hex
  text of a threshold is any text, and is read by \<open>int_hex\<close> further down.
\<close>

definition hexval :: "char \<Rightarrow> nat option" where
  "hexval c =
     (let n = of_char c :: nat in
      if 48 \<le> n \<and> n \<le> 57 then Some (n - 48)
      else if 97 \<le> n \<and> n \<le> 102 then Some (n - 87)
      else if 65 \<le> n \<and> n \<le> 70 then Some (n - 55)
      else None)"

fun int16_acc :: "string \<Rightarrow> nat \<Rightarrow> nat option" where
  "int16_acc [] a = Some a"
| "int16_acc (c # cs) a = (case hexval c of None \<Rightarrow> None | Some v \<Rightarrow> int16_acc cs (16 * a + v))"

definition int16 :: "string \<Rightarrow> error + nat" where
  "int16 s = (if s = [] then Inl ValueError
              else case int16_acc s 0 of None \<Rightarrow> Inl ValueError | Some n \<Rightarrow> Inr n)"

text \<open>\<^verbatim>\<open>Deversify(vs)\<close> returns \<^verbatim>\<open>(kind, version, size)\<close>.\<close>

definition Deversify :: "string \<Rightarrow> error + (string \<times> (nat \<times> nat) \<times> nat)" where
  "Deversify vs =
     (case Rever_match vs of
        None \<Rightarrow> Inl ValueError
      | Some (major, minor, kind, hsize) \<Rightarrow>
          ebind (int16 major) (\<lambda>ma.
          ebind (int16 minor) (\<lambda>mi.
          if kind \<notin> set Serials then Inl ValueError
          else ebind (int16 hsize) (\<lambda>sz. Inr (kind, (ma, mi), sz)))))"

section \<open>Base64\<close>

text \<open>
  \<^verbatim>\<open>B64ChrByIdx\<close> maps the indices 0 to 63 to the characters \<^verbatim>\<open>A-Z a-z 0-9 - _\<close>, and
  \<^verbatim>\<open>B64IdxByChr\<close> is the inverse dict.
\<close>

definition b64chars :: string where
  "b64chars = ''ABCDEFGHIJKLMNOPQRSTUVWXYZabcdefghijklmnopqrstuvwxyz0123456789-_''"

definition B64ChrByIdx :: "nat \<Rightarrow> char" where
  "B64ChrByIdx i = b64chars ! i"

definition B64IdxByChr :: "char \<rightharpoonup> nat" where
  "B64IdxByChr = map_of (zip b64chars [0..<64])"

text \<open>
  \<^verbatim>\<open>IntToB64(i, l)\<close>. The digits are pushed on the left of a deque while the quotient is
  not zero. Python's \<^verbatim>\<open>//\<close> rounds down, so for a negative \<open>i\<close> the quotient stays at
  \<open>-1\<close> and the loop does not end: the loop is a partial function, with \<open>None\<close> for a
  run that does not return. \<^verbatim>\<open>i % 64\<close> is between 0 and 63 for every \<open>i\<close>.
\<close>

partial_function (option) IntToB64_loop :: "int \<Rightarrow> string \<Rightarrow> string option" where
  "IntToB64_loop i d =
     (if i \<noteq> 0 then IntToB64_loop (i div 64) (B64ChrByIdx (nat (i mod 64)) # d) else Some d)"

definition IntToB64 :: "int \<Rightarrow> nat \<Rightarrow> string option" where
  "IntToB64 i l =
     (case IntToB64_loop (i div 64) [B64ChrByIdx (nat (i mod 64))] of
        None \<Rightarrow> None
      | Some d \<Rightarrow> Some (replicate (l - length d) (CHR ''A'') @ d))"

text \<open>\<^verbatim>\<open>B64ToInt(cs)\<close>: the loop runs over the reversed text with the exponent \<open>e\<close>.\<close>

fun B64ToInt_loop :: "string \<Rightarrow> nat \<Rightarrow> nat \<Rightarrow> error + nat" where
  "B64ToInt_loop [] e i = Inr i"
| "B64ToInt_loop (c # cs) e i =
     (case B64IdxByChr c of
        None \<Rightarrow> Inl KeyError
      | Some v \<Rightarrow> B64ToInt_loop cs (Suc e) (i + v * 64 ^ e))"

definition B64ToInt :: "string \<Rightarrow> error + nat" where
  "B64ToInt cs = B64ToInt_loop (rev cs) 0 0"

text \<open>
  \<^verbatim>\<open>encodeB64\<close> is the standard library's \<^verbatim>\<open>urlsafe_b64encode\<close>: three bytes become
  four characters of the alphabet above, and a last group of one or two bytes is filled
  with \<^verbatim>\<open>=\<close>.
\<close>

fun encodeB64 :: "string \<Rightarrow> string" where
  "encodeB64 [] = []"
| "encodeB64 [a] =
     (let x = of_char a :: nat
      in [B64ChrByIdx (x div 4), B64ChrByIdx (x mod 4 * 16), CHR ''='', CHR ''=''])"
| "encodeB64 [a, b] =
     (let x = of_char a :: nat; y = of_char b :: nat
      in [B64ChrByIdx (x div 4), B64ChrByIdx (x mod 4 * 16 + y div 16),
          B64ChrByIdx (y mod 16 * 4), CHR ''=''])"
| "encodeB64 (a # b # c # rest) =
     (let x = of_char a :: nat; y = of_char b :: nat; z = of_char c :: nat
      in [B64ChrByIdx (x div 4), B64ChrByIdx (x mod 4 * 16 + y div 16),
          B64ChrByIdx (y mod 16 * 4 + z div 64), B64ChrByIdx (z mod 64)] @ encodeB64 rest)"

text \<open>
  \<^verbatim>\<open>decodeB64\<close> is the standard library's \<^verbatim>\<open>urlsafe_b64decode\<close>: it maps \<^verbatim>\<open>-\<close> to
  \<^verbatim>\<open>+\<close> and \<^verbatim>\<open>_\<close> to \<^verbatim>\<open>/\<close> and calls \<^verbatim>\<open>binascii.a2b_base64\<close>, which is not strict.
  The decoder skips every byte outside the alphabet; a \<^verbatim>\<open>=\<close> ends the input when it
  completes a group of four (at positions 2 and 3 of a group) and is skipped elsewhere;
  a group left open at the end of the input raises \<^verbatim>\<open>binascii.Error\<close>. The arguments
  are the position in the group, the bits left over, and the count of \<^verbatim>\<open>=\<close> seen
  since the last character of the alphabet.
\<close>

definition b64val :: "char \<Rightarrow> nat option" where
  "b64val c = (if c = CHR ''+'' then Some 62 else if c = CHR ''/'' then Some 63 else B64IdxByChr c)"

definition emit :: "char \<Rightarrow> error + string \<Rightarrow> error + string" where
  "emit b r = (case r of Inl e \<Rightarrow> Inl e | Inr out \<Rightarrow> Inr (b # out))"

fun a2b_base64 :: "string \<Rightarrow> nat \<Rightarrow> nat \<Rightarrow> nat \<Rightarrow> error + string" where
  "a2b_base64 [] quad leftchar pads = (if quad \<noteq> 0 then Inl BinasciiError else Inr [])"
| "a2b_base64 (c # cs) quad leftchar pads =
     (if c = CHR ''='' then
        (if 2 \<le> quad \<and> 4 \<le> quad + (pads + 1) then Inr []
         else a2b_base64 cs quad leftchar (if 2 \<le> quad then pads + 1 else pads))
      else
        (case b64val c of
           None \<Rightarrow> a2b_base64 cs quad leftchar pads
         | Some v \<Rightarrow>
             (if quad = 0 then a2b_base64 cs 1 v 0
              else if quad = 1 then
                emit (char_of (leftchar * 4 + v div 16)) (a2b_base64 cs 2 (v mod 16) 0)
              else if quad = 2 then
                emit (char_of (leftchar * 16 + v div 4)) (a2b_base64 cs 3 (v mod 4) 0)
              else emit (char_of (leftchar * 64 + v)) (a2b_base64 cs 0 0 0))))"

definition decodeB64 :: "string \<Rightarrow> error + string" where
  "decodeB64 s = a2b_base64 s 0 0 0"

text \<open>
  \<^verbatim>\<open>b.decode("utf-8")\<close> raises \<^verbatim>\<open>UnicodeDecodeError\<close> unless the bytes are well-formed
  UTF-8. The text it returns is modelled by the same bytes.
\<close>

definition utf8_cont :: "nat \<Rightarrow> bool" where
  "utf8_cont b = (128 \<le> b \<and> b \<le> 191)"

fun utf8_valid :: "nat list \<Rightarrow> bool" where
  "utf8_valid [] = True"
| "utf8_valid (a # rest) =
     (if a < 128 then utf8_valid rest
      else if 194 \<le> a \<and> a \<le> 223 then
        (case rest of b # r \<Rightarrow> utf8_cont b \<and> utf8_valid r | _ \<Rightarrow> False)
      else if 224 \<le> a \<and> a \<le> 239 then
        (case rest of
           b # c # r \<Rightarrow>
             utf8_cont b \<and> utf8_cont c \<and> (a = 224 \<longrightarrow> 160 \<le> b) \<and> (a = 237 \<longrightarrow> b \<le> 159)
               \<and> utf8_valid r
         | _ \<Rightarrow> False)
      else if 240 \<le> a \<and> a \<le> 244 then
        (case rest of
           b # c # d # r \<Rightarrow>
             utf8_cont b \<and> utf8_cont c \<and> utf8_cont d \<and> (a = 240 \<longrightarrow> 144 \<le> b)
               \<and> (a = 244 \<longrightarrow> b \<le> 143) \<and> utf8_valid r
         | _ \<Rightarrow> False)
      else False)"

definition decode_utf8 :: "string \<Rightarrow> error + string" where
  "decode_utf8 b = (if utf8_valid (map of_char b) then Inr b else Inl UnicodeDecodeError)"

text \<open>The slice \<^verbatim>\<open>xs[:j]\<close>: a negative \<open>j\<close> counts from the end, and \<^verbatim>\<open>xs[:-0]\<close> is
  \<^verbatim>\<open>xs[:0]\<close>, the empty list.\<close>

definition slice_to :: "'a list \<Rightarrow> int \<Rightarrow> 'a list" where
  "slice_to xs j = (if j < 0 then take (length xs - nat (- j)) xs else take (nat j) xs)"

section \<open>Derivation codes and their sizes\<close>

text \<open>
  A codex is a frozen dataclass; \<^verbatim>\<open>code in Codex\<close> runs over its field values, the
  lists below. The size tables are dicts, and \<^verbatim>\<open>dict.update\<close> is map addition. The
  two-character codex holds \<^verbatim>\<open>0C\<close>, for which the size tables have no entry.
\<close>

definition CrySelDex_two :: string where "CrySelDex_two = ''0''"
definition CrySelDex_four :: string where "CrySelDex_four = ''1''"
definition CrySelDex_dash :: string where "CrySelDex_dash = ''-''"

definition CryCntDex :: "string list" where
  "CryCntDex = [''-A'', ''-B'']"

definition CryCntSizes :: "string \<rightharpoonup> nat" where
  "CryCntSizes = map_of [(''-A'', 4), (''-B'', 4)]"

definition CryCntIdxSizes :: "string \<rightharpoonup> nat" where
  "CryCntIdxSizes = map_of [(''-A'', 2), (''-B'', 2)]"

definition CryCntRawSizes :: "string \<rightharpoonup> nat" where
  "CryCntRawSizes = map_of [(''-A'', 0), (''-B'', 0)]"

definition CRYCNTMAX :: int where
  "CRYCNTMAX = 4095"

definition CryOneDex :: "string list" where
  "CryOneDex = map (\<lambda>c. [c]) ''ABCDEFGHIJKL''"

definition CryOneSizes :: "string \<rightharpoonup> nat" where
  "CryOneSizes = map_of
     [(''A'', 44), (''B'', 44), (''C'', 44), (''D'', 44), (''E'', 44), (''F'', 44),
      (''G'', 44), (''H'', 44), (''I'', 44), (''J'', 44), (''K'', 76), (''L'', 76)]"

definition CryOneRawSizes :: "string \<rightharpoonup> nat" where
  "CryOneRawSizes = map_of
     [(''A'', 32), (''B'', 32), (''C'', 32), (''D'', 32), (''E'', 32), (''F'', 32),
      (''G'', 32), (''H'', 32), (''I'', 32), (''J'', 32), (''K'', 56), (''L'', 56)]"

definition CryTwoDex :: "string list" where
  "CryTwoDex = [''0A'', ''0B'', ''0C'']"

definition CryTwoSizes :: "string \<rightharpoonup> nat" where
  "CryTwoSizes = map_of [(''0A'', 24), (''0B'', 88)]"

definition CryTwoRawSizes :: "string \<rightharpoonup> nat" where
  "CryTwoRawSizes = map_of [(''0A'', 16), (''0B'', 64)]"

definition CryFourDex :: "string list" where
  "CryFourDex = [''1AAA'', ''1AAB'', ''1AAC'', ''1AAD'', ''1AAE'']"

definition CryFourSizes :: "string \<rightharpoonup> nat" where
  "CryFourSizes = map_of
     [(''1AAA'', 48), (''1AAB'', 48), (''1AAC'', 80), (''1AAD'', 80), (''1AAE'', 156)]"

definition CryFourRawSizes :: "string \<rightharpoonup> nat" where
  "CryFourRawSizes = map_of
     [(''1AAA'', 33), (''1AAB'', 33), (''1AAC'', 57), (''1AAD'', 57), (''1AAE'', 114)]"

definition CrySizes :: "string \<rightharpoonup> nat" where
  "CrySizes = CryCntSizes ++ CryOneSizes ++ CryTwoSizes ++ CryFourSizes"

definition MINCRYSIZE :: nat where
  "MINCRYSIZE = 4"

definition CryRawSizes :: "string \<rightharpoonup> nat" where
  "CryRawSizes = CryCntRawSizes ++ CryOneRawSizes ++ CryTwoRawSizes ++ CryFourRawSizes"

definition CryIdxSizes :: "string \<rightharpoonup> nat" where
  "CryIdxSizes = CryCntIdxSizes"

definition CryNonTransDex :: "string list" where
  "CryNonTransDex = [''B'', ''1AAA'', ''1AAC'']"

definition CryDigDex :: "string list" where
  "CryDigDex = [''E'', ''F'', ''G'', ''H'', ''I'']"

section \<open>CryMat: qualified cryptographic material\<close>

record crymat =
  code :: string
  index :: int
  raw :: string

text \<open>\<^verbatim>\<open>CryMat._pad(raw)\<close>: the number of pad characters of the Base64 text of \<open>raw\<close>.\<close>

definition pad :: "string \<Rightarrow> nat" where
  "pad r = (let m = length r mod 3 in if m \<noteq> 0 then 3 - m else 0)"

text \<open>
  \<^verbatim>\<open>CryMat._exfil(qb64b)\<close>. \<open>exfil_body\<close> is the part after the branch on the selector
  character: the length check against \<^verbatim>\<open>CrySizes\<close>, the decoding and the exact length
  check of the raw material. \<open>cs\<close> is the size of the code with its index characters.
\<close>

definition exfil_body :: "string \<Rightarrow> nat \<Rightarrow> string \<Rightarrow> int \<Rightarrow> error + crymat" where
  "exfil_body qb64b cs cd idx =
     ebind (getitem CrySizes cd) (\<lambda>full.
       if length qb64b \<noteq> full then
         (if length qb64b < full then Inl ShortageError else Inl ValidationError)
       else
         ebind (decodeB64 (drop cs qb64b @ replicate (cs mod 4) (CHR ''=''))) (\<lambda>r.
           if length r \<noteq> (length qb64b - cs) * 3 div 4 then Inl ValueError
           else Inr \<lparr>code = cd, index = idx, raw = r\<rparr>))"

definition exfil :: "string \<Rightarrow> error + crymat" where
  "exfil qb64b =
     (if length qb64b < MINCRYSIZE then Inl ShortageError
      else
        ebind (decode_utf8 (take 1 qb64b)) (\<lambda>sel.
          if sel \<in> set CryOneDex then
            ebind (getitem CryOneSizes sel) (\<lambda>n. exfil_body (take n qb64b) 1 sel 0)
          else if sel = CrySelDex_two then
            ebind (decode_utf8 (take 2 qb64b)) (\<lambda>cd.
              if cd \<notin> set CryTwoDex then Inl ValidationError
              else ebind (getitem CryTwoSizes cd) (\<lambda>n. exfil_body (take n qb64b) 2 cd 0))
          else if sel = CrySelDex_four then
            ebind (decode_utf8 (take 4 qb64b)) (\<lambda>cd.
              if cd \<notin> set CryFourDex then Inl ValidationError
              else ebind (getitem CryFourSizes cd) (\<lambda>n. exfil_body (take n qb64b) 4 cd 0))
          else if sel = CrySelDex_dash then
            ebind (decode_utf8 (take 2 qb64b)) (\<lambda>cd.
              if cd \<notin> set CryCntDex then Inl ValidationError
              else
                ebind (getitem CryCntSizes cd) (\<lambda>n.
                ebind (decode_utf8 (take 2 (drop 2 (take n qb64b)))) (\<lambda>ix.
                ebind (B64ToInt ix) (\<lambda>i. exfil_body (take n qb64b) 4 cd (int i)))))
          else Inl ValueError))"

text \<open>
  \<^verbatim>\<open>CryMat.__init__(raw, qb64b, qb64, qb2, code, index)\<close>. An argument left at
  \<^verbatim>\<open>None\<close> is \<open>None\<close>; the code \<^verbatim>\<open>None\<close> and the empty code are both the empty text
  (\<^verbatim>\<open>not code\<close> holds for both, and neither is in a codex).
\<close>

definition CryMat_init ::
  "string option \<Rightarrow> string option \<Rightarrow> string option \<Rightarrow> string option \<Rightarrow> string \<Rightarrow> int
     \<Rightarrow> error + crymat" where
  "CryMat_init raw_arg qb64b qb64 qb2 cd idx =
     (case raw_arg of
        Some r \<Rightarrow>
          (if cd = [] then Inl EmptyMaterialError
           else if \<not> ((pad r = 1 \<and> cd \<in> set CryOneDex) \<or> (pad r = 2 \<and> cd \<in> set CryTwoDex)
                      \<or> (pad r = 0 \<and> cd \<in> set CryFourDex) \<or> (pad r = 0 \<and> cd \<in> set CryCntDex))
           then Inl ValidationError
           else if cd \<in> set CryCntDex \<and> (idx < 0 \<or> idx > CRYCNTMAX) then Inl ValidationError
           else
             ebind (getitem CryRawSizes cd) (\<lambda>n.
               if length (take n r) \<noteq> n then Inl ValidationError
               else Inr \<lparr>code = cd, index = idx, raw = take n r\<rparr>))
      | None \<Rightarrow>
          (case qb64b of
             Some q \<Rightarrow> exfil q
           | None \<Rightarrow>
               (case qb64 of
                  Some q \<Rightarrow> exfil q
                | None \<Rightarrow>
                    (case qb2 of
                       Some q \<Rightarrow> exfil (encodeB64 q)
                     | None \<Rightarrow> Inl EmptyMaterialError))))"

text \<open>
  \<^verbatim>\<open>CryMat._infil()\<close>, which the properties \<^verbatim>\<open>qb64b\<close> and \<^verbatim>\<open>qb64\<close> return. The
  result is \<open>None\<close> when \<^verbatim>\<open>IntToB64\<close> does not return.
\<close>

definition infil :: "crymat \<Rightarrow> (error + string) option" where
  "infil m =
     (let full =
        (if code m \<in> set CryCntDex then
           (case CryIdxSizes (code m) of
              None \<Rightarrow> Some (Inl KeyError)
            | Some l \<Rightarrow>
                (case IntToB64 (index m) l of None \<Rightarrow> None | Some s \<Rightarrow> Some (Inr (code m @ s))))
         else Some (Inr (code m)))
      in case full of
           None \<Rightarrow> None
         | Some (Inl e) \<Rightarrow> Some (Inl e)
         | Some (Inr f) \<Rightarrow>
             Some (if length f mod 4 \<noteq> pad (raw m) then Inl ValidationError
                   else Inr (f @ slice_to (encodeB64 (raw m)) (- int (pad (raw m))))))"

definition qb64b_of :: "crymat \<Rightarrow> (error + string) option" where
  "qb64b_of m = infil m"

definition qb64_of :: "crymat \<Rightarrow> (error + string) option" where
  "qb64_of m = qb64b_of m"

text \<open>\<^verbatim>\<open>CryMat.qb2\<close>: the whole qualified text decoded from Base64.\<close>

definition qb2_of :: "crymat \<Rightarrow> (error + string) option" where
  "qb2_of m =
     (case infil m of
        None \<Rightarrow> None
      | Some (Inl e) \<Rightarrow> Some (Inl e)
      | Some (Inr q) \<Rightarrow> Some (decodeB64 q))"

definition transferable :: "crymat \<Rightarrow> bool" where
  "transferable m = (code m \<notin> set CryNonTransDex)"

definition digestive :: "crymat \<Rightarrow> bool" where
  "digestive m = (code m \<in> set CryDigDex)"

text \<open>
  \<^verbatim>\<open>CryCounter.__init__(raw, qb64b, qb64, qb2, code, index, count)\<close>: a raw that is given
  is replaced by the empty bytes, and \<^verbatim>\<open>count\<close> overrides \<^verbatim>\<open>index\<close>.
\<close>

definition CryCounter_init ::
  "string option \<Rightarrow> string option \<Rightarrow> string option \<Rightarrow> string option \<Rightarrow> string
     \<Rightarrow> int option \<Rightarrow> int option \<Rightarrow> error + crymat" where
  "CryCounter_init raw_arg qb64b qb64 qb2 cd idx count =
     (let r1 = (case raw_arg of Some _ \<Rightarrow> Some [] | None \<Rightarrow> None);
          r2 = (if r1 = None \<and> qb64b = None \<and> qb64 = None \<and> qb2 = None then Some [] else r1);
          i1 = (case count of Some c \<Rightarrow> Some c | None \<Rightarrow> idx);
          i2 = (case i1 of None \<Rightarrow> 1 | Some i \<Rightarrow> i)
      in ebind (CryMat_init r2 qb64b qb64 qb2 cd i2) (\<lambda>m.
           if code m \<notin> set CryCntDex then Inl ValidationError else Inr m))"

section \<open>Tholder: signing thresholds\<close>

text \<open>
  The threshold \<^verbatim>\<open>sith\<close> is a hex text, or an iterable whose items are weight texts (one
  clause) or clauses (lists of weight texts).
\<close>

datatype sith_item = W string | Clause "string list"

datatype sith = SithStr string | SithIter "sith_item list"

datatype thold = Numeric int | Weighted "rat list list"

record tholder =
  sith :: sith
  weighted :: bool
  thold :: thold
  tsize :: nat
  limen :: string

text \<open>
  \<^verbatim>\<open>Fraction(w)\<close> of the standard library on a text. The text is matched against
  \<^verbatim>\<open>\A\s*(?P<sign>[-+]?)(?=\d|\.\d)(?P<num>\d*)(?:(?:/(?P<denom>\d+))?|(?:\.(?P<decimal>\d*))?(?:E(?P<exp>[-+]?\d+))?)\s*\Z\<close>,
  ignoring case: white space, a sign, the digits of the numerator, then either a \<^verbatim>\<open>/\<close>
  with the digits of the denominator, or a decimal part and an exponent, then white
  space. No match raises \<^verbatim>\<open>ValueError\<close>, a zero denominator \<^verbatim>\<open>ZeroDivisionError\<close>.
  The value is an exact rational. The model reads ASCII digits and ASCII white space.
  The constructor of a threshold takes the parser as a parameter (\<open>Tholder_init_with\<close>
  below), so that what is proved of it holds for the library's parser on every text.
\<close>

definition is_space :: "char \<Rightarrow> bool" where
  "is_space c = (let n = of_char c :: nat in (9 \<le> n \<and> n \<le> 13) \<or> (28 \<le> n \<and> n \<le> 32))"

definition is_digit :: "char \<Rightarrow> bool" where
  "is_digit c = (let n = of_char c :: nat in 48 \<le> n \<and> n \<le> 57)"

text \<open>\<^verbatim>\<open>int(ds)\<close> for a text of digits; the empty text counts as 0, as in
  \<^verbatim>\<open>int(m.group('num') or '0')\<close>.\<close>

definition digits_val :: "string \<Rightarrow> nat" where
  "digits_val ds = foldl (\<lambda>a c. 10 * a + (of_char c - 48)) 0 ds"

text \<open>The exponent after \<^verbatim>\<open>E\<close>: \<open>None\<close> when there is no \<^verbatim>\<open>E\<close>, else whether the
  exponent is negative, its digits, and the text that follows. An \<^verbatim>\<open>E\<close> without digits
  matches nothing and is left in the text that follows.\<close>

definition scan_exp :: "string \<Rightarrow> (bool \<times> string) option \<times> string" where
  "scan_exp s =
     (if take 1 s = ''e'' \<or> take 1 s = ''E'' then
        (let t = drop 1 s;
             u = (if take 1 t = ''-'' \<or> take 1 t = ''+'' then drop 1 t else t)
         in if takeWhile is_digit u = [] then (None, s)
            else (Some (take 1 t = ''-'', takeWhile is_digit u), dropWhile is_digit u))
      else (None, s))"

definition Fraction :: "string \<Rightarrow> error + rat" where
  "Fraction w =
     (let s1 = dropWhile is_space w;
          neg = (take 1 s1 = ''-'');
          s2 = (if take 1 s1 = ''-'' \<or> take 1 s1 = ''+'' then drop 1 s1 else s1);
          num = takeWhile is_digit s2;
          s3 = dropWhile is_digit s2
      in if \<not> (list_ex is_digit (take 1 s2)
                \<or> (take 1 s2 = ''.'' \<and> list_ex is_digit (take 1 (drop 1 s2))))
         then Inl ValueError
         else if take 1 s3 = ''/'' \<and> list_ex is_digit (take 1 (drop 1 s3)) then
           (let den = takeWhile is_digit (drop 1 s3);
                s4 = dropWhile is_digit (drop 1 s3)
            in if dropWhile is_space s4 \<noteq> [] then Inl ValueError
               else if digits_val den = 0 then Inl ZeroDivisionError
               else Inr ((if neg then - of_nat (digits_val num) else of_nat (digits_val num))
                          / of_nat (digits_val den)))
         else
           (let dec = (if take 1 s3 = ''.'' then takeWhile is_digit (drop 1 s3) else []);
                s4 = (if take 1 s3 = ''.'' then dropWhile is_digit (drop 1 s3) else s3);
                ex = fst (scan_exp s4);
                s5 = snd (scan_exp s4);
                n1 = digits_val num * 10 ^ length dec + digits_val dec;
                d1 = 10 ^ length dec;
                n2 = (case ex of
                        None \<Rightarrow> n1
                      | Some (eneg, ds) \<Rightarrow>
                          if eneg \<and> digits_val ds \<noteq> 0 then n1 else n1 * 10 ^ digits_val ds);
                d2 = (case ex of
                        None \<Rightarrow> d1
                      | Some (eneg, ds) \<Rightarrow>
                          if eneg \<and> digits_val ds \<noteq> 0 then d1 * 10 ^ digits_val ds else d1)
            in if dropWhile is_space s5 \<noteq> [] then Inl ValueError
               else Inr ((if neg then - of_nat n2 else of_nat n2) / of_nat d2)))"

text \<open>
  \<^verbatim>\<open>int(sith, 16)\<close> on any text: white space, a sign, an optional prefix \<^verbatim>\<open>0x\<close> or
  \<^verbatim>\<open>0X\<close> that one underscore may follow, then hex digits of either case with single
  underscores between them, then white space; everything else raises \<^verbatim>\<open>ValueError\<close>.
  The white space of \<^verbatim>\<open>int\<close> on an ASCII text is the space and the characters 9 to 13.
  \<open>scan_hex\<close> reads the digits: its arguments are the text, whether the last character
  was an underscore, and the value so far; it returns the value and the text left.
\<close>

definition is_cspace :: "char \<Rightarrow> bool" where
  "is_cspace c = (let n = of_char c :: nat in (9 \<le> n \<and> n \<le> 13) \<or> n = 32)"

fun scan_hex :: "string \<Rightarrow> bool \<Rightarrow> nat \<Rightarrow> (nat \<times> string) option" where
  "scan_hex [] us a = (if us then None else Some (a, []))"
| "scan_hex (c # cs) us a =
     (if c = CHR ''_'' then (if us then None else scan_hex cs True a)
      else case hexval c of
             Some v \<Rightarrow> scan_hex cs False (16 * a + v)
           | None \<Rightarrow> if us then None else Some (a, c # cs))"

definition int_hex :: "string \<Rightarrow> error + int" where
  "int_hex s =
     (let s1 = dropWhile is_cspace s;
          neg = (take 1 s1 = ''-'');
          s2 = (if take 1 s1 = ''-'' \<or> take 1 s1 = ''+'' then drop 1 s1 else s1);
          s3 = (if take 2 s2 = ''0x'' \<or> take 2 s2 = ''0X''
                then (if take 1 (drop 2 s2) = ''_'' then drop 3 s2 else drop 2 s2)
                else s2)
      in if take 1 s3 = ''_'' then Inl ValueError
         else
           case scan_hex s3 False 0 of
             None \<Rightarrow> Inl ValueError
           | Some (n, rest) \<Rightarrow>
               if length rest = length s3 then Inl ValueError
               else if dropWhile is_cspace rest \<noteq> [] then Inl ValueError
               else Inr (if neg then - int n else int n))"

text \<open>A list comprehension whose element expression may raise: the first exception
  ends it.\<close>

fun emap :: "('a \<Rightarrow> error + 'b) \<Rightarrow> 'a list \<Rightarrow> error + 'b list" where
  "emap f [] = Inr []"
| "emap f (x # xs) = ebind (f x) (\<lambda>y. ebind (emap f xs) (\<lambda>ys. Inr (y # ys)))"

text \<open>\<^verbatim>\<open>sep.join(xs)\<close>.\<close>

fun join :: "string \<Rightarrow> string list \<Rightarrow> string" where
  "join sep [] = []"
| "join sep [x] = x"
| "join sep (x # y # zs) = x @ sep @ join sep (y # zs)"

definition is_W :: "sith_item \<Rightarrow> bool" where
  "is_W it = (case it of W _ \<Rightarrow> True | Clause _ \<Rightarrow> False)"

definition weights_of :: "sith_item \<Rightarrow> string list" where
  "weights_of it = (case it of W w \<Rightarrow> [w] | Clause ws \<Rightarrow> ws)"

text \<open>
  \<^verbatim>\<open>Tholder.__init__(sith)\<close>. For an iterable, \<open>mask\<close> tells which items are texts: when
  all are, the iterable is one clause; when some are, the constructor raises; when none
  is, the items are the clauses. \<open>parse\<close> is the parser of a weight, \<^verbatim>\<open>Fraction\<close> in the
  source.
\<close>

definition Tholder_init_with :: "(string \<Rightarrow> error + rat) \<Rightarrow> sith \<Rightarrow> error + tholder" where
  "Tholder_init_with parse s =
     (case s of
        SithStr h \<Rightarrow>
          ebind (int_hex h) (\<lambda>n.
            if n < 1 then Inl ValueError
            else Inr \<lparr>sith = s, weighted = False, thold = Numeric n, tsize = nat n, limen = h\<rparr>)
      | SithIter items \<Rightarrow>
          if items = [] then Inl ValueError
          else
            ebind (if list_all is_W items then Inr [concat (map weights_of items)]
                   else if list_ex is_W items then Inl ValueError
                   else Inr (map weights_of items)) (\<lambda>clauses.
            ebind (emap (emap parse) clauses) (\<lambda>th.
              if list_ex (\<lambda>clause. \<not> 1 \<le> sum_list clause) th then Inl ValueError
              else Inr \<lparr>sith = s, weighted = True, thold = Weighted th,
                        tsize = sum_list (map length th),
                        limen = join ''&'' (map (join '','') clauses)\<rparr>)))"

definition Tholder_init :: "sith \<Rightarrow> error + tholder" where
  "Tholder_init = Tholder_init_with Fraction"

text \<open>
  \<^verbatim>\<open>Tholder._satisfy_numeric(indices)\<close>: the length of the list against the threshold.
  The comparison of a length with a list of clauses raises \<^verbatim>\<open>TypeError\<close>, which the
  \<^verbatim>\<open>except\<close> turns into \<^verbatim>\<open>False\<close>.
\<close>

definition satisfy_numeric :: "tholder \<Rightarrow> int list \<Rightarrow> bool" where
  "satisfy_numeric t indices =
     (case thold t of Numeric n \<Rightarrow> n \<le> int (length indices) | Weighted _ \<Rightarrow> False)"

text \<open>
  \<^verbatim>\<open>Tholder._satisfy_weighted(indices)\<close>. \<open>mark\<close> is the loop
  \<^verbatim>\<open>for idx in indices: sats[idx] = True\<close>: a Python list takes an index from
  \<open>- len\<close> to \<open>len - 1\<close>, a negative one counting from the end, and raises
  \<^verbatim>\<open>IndexError\<close> outside. \<open>clause_weight\<close> is the inner loop over the weights of one
  clause, \<open>clauses_sat\<close> the outer loop over the clauses, with the running offset
  \<open>wio\<close>. The \<^verbatim>\<open>except\<close> turns every exception into \<^verbatim>\<open>False\<close>.
\<close>

fun mark :: "bool list \<Rightarrow> int list \<Rightarrow> error + bool list" where
  "mark sats [] = Inr sats"
| "mark sats (idx # rest) =
     (let n = int (length sats); j = (if idx < 0 then n + idx else idx)
      in if 0 \<le> j \<and> j < n then mark (sats[nat j := True]) rest else Inl IndexError)"

fun clause_weight :: "rat list \<Rightarrow> bool list \<Rightarrow> nat \<Rightarrow> rat \<Rightarrow> error + (rat \<times> nat)" where
  "clause_weight [] sats wio cw = Inr (cw, wio)"
| "clause_weight (w # ws) sats wio cw =
     (if wio < length sats
      then clause_weight ws sats (Suc wio) (if sats ! wio then cw + w else cw)
      else Inl IndexError)"

fun clauses_sat :: "rat list list \<Rightarrow> bool list \<Rightarrow> nat \<Rightarrow> error + bool" where
  "clauses_sat [] sats wio = Inr True"
| "clauses_sat (clause # rest) sats wio =
     ebind (clause_weight clause sats wio 0) (\<lambda>(cw, wio').
       if cw < 1 then Inr False else clauses_sat rest sats wio')"

definition satisfy_weighted :: "tholder \<Rightarrow> int list \<Rightarrow> bool" where
  "satisfy_weighted t indices =
     (case (if indices = [] then Inr False
            else ebind (mark (replicate (tsize t) False) (sort (remdups indices))) (\<lambda>sats.
                   case thold t of
                     Weighted th \<Rightarrow> clauses_sat th sats 0
                   | Numeric _ \<Rightarrow> Inl ValueError)) of
        Inl _ \<Rightarrow> False
      | Inr b \<Rightarrow> b)"

text \<open>\<^verbatim>\<open>Tholder.satisfy(indices)\<close> calls the method bound at construction.\<close>

definition satisfy :: "tholder \<Rightarrow> int list \<Rightarrow> bool" where
  "satisfy t indices = (if weighted t then satisfy_weighted t indices else satisfy_numeric t indices)"

section \<open>Key event dicts and their serializations\<close>

text \<open>
  A key event dict (KED) maps labels to texts, lists and dicts. A Python dict keeps the
  order in which its keys were inserted, and the serializations follow that order: the
  dict is an association list with distinct keys. \<open>dict_set\<close> is the assignment
  \<^verbatim>\<open>d[k] = v\<close>, which keeps the place of a key that is present and appends a new one.
\<close>

datatype jval = JStr string | JList "jval list" | JDict "(string \<times> jval) list"

type_synonym ked = "(string \<times> jval) list"

fun dict_set :: "ked \<Rightarrow> string \<Rightarrow> jval \<Rightarrow> ked" where
  "dict_set [] k v = [(k, v)]"
| "dict_set ((k', v') # rest) k v =
     (if k' = k then (k, v) # rest else (k', v') # dict_set rest k v)"


text \<open>
  The three codecs are libraries outside the module. Their encoders are written out
  for the values a KED holds, following the wire formats:
  \<^item> \<^verbatim>\<open>json.dumps(ked, separators=(",", ":"), ensure_ascii=False)\<close>: no white space; in a
    text the quote, the backslash and the control characters below \<open>0x20\<close> are escaped
    and every other byte is kept;
  \<^item> \<^verbatim>\<open>msgpack.dumps(ked)\<close>: a header with the length, then the bytes (text), the items
    (array) or the keys and values (map);
  \<^item> \<^verbatim>\<open>cbor.dumps(ked)\<close>: the same shape with the headers of the major types 3 (text),
    4 (array) and 5 (map).
  The decoders are a parameter \<open>loads\<close> of the functions that call them.
\<close>

definition json_escape :: "char \<Rightarrow> string" where
  "json_escape c =
     (let n = of_char c :: nat in
      if n = 34 then [CHR 0x5C, CHR 0x22]
      else if n = 92 then [CHR 0x5C, CHR 0x5C]
      else if n = 10 then [CHR 0x5C, CHR ''n'']
      else if n = 13 then [CHR 0x5C, CHR ''r'']
      else if n = 9 then [CHR 0x5C, CHR ''t'']
      else if n = 8 then [CHR 0x5C, CHR ''b'']
      else if n = 12 then [CHR 0x5C, CHR ''f'']
      else if n < 32 then [CHR 0x5C, CHR ''u''] @ fmt_0x 4 n
      else [c])"

definition json_str :: "string \<Rightarrow> string" where
  "json_str s = [CHR 0x22] @ concat (map json_escape s) @ [CHR 0x22]"

fun json_dumps :: "jval \<Rightarrow> string"
  and json_items :: "jval list \<Rightarrow> string"
  and json_pairs :: "(string \<times> jval) list \<Rightarrow> string" where
  "json_dumps (JStr s) = json_str s"
| "json_dumps (JList xs) = ''['' @ json_items xs @ '']''"
| "json_dumps (JDict kvs) = ''{'' @ json_pairs kvs @ ''}''"
| "json_items [] = []"
| "json_items [x] = json_dumps x"
| "json_items (x # y # ys) = json_dumps x @ '','' @ json_items (y # ys)"
| "json_pairs [] = []"
| "json_pairs [(k, v)] = json_str k @ '':'' @ json_dumps v"
| "json_pairs ((k, v) # p # ps) = json_str k @ '':'' @ json_dumps v @ '','' @ json_pairs (p # ps)"

text \<open>\<open>be_bytes k n\<close> is the number \<open>n\<close> in \<open>k\<close> bytes, the most significant first.\<close>

fun be_bytes :: "nat \<Rightarrow> nat \<Rightarrow> string" where
  "be_bytes 0 n = []"
| "be_bytes (Suc k) n = be_bytes k (n div 256) @ [char_of (n mod 256)]"

definition msgpack_head :: "nat \<Rightarrow> nat \<Rightarrow> nat \<Rightarrow> nat \<Rightarrow> nat \<Rightarrow> string" where
  "msgpack_head fix fixmax h16 h32 n =
     (if n \<le> fixmax then [char_of (fix + n)]
      else if n < 65536 then char_of h16 # be_bytes 2 n
      else char_of h32 # be_bytes 4 n)"

definition msgpack_str :: "string \<Rightarrow> string" where
  "msgpack_str s =
     (if length s \<le> 31 then [char_of (160 + length s)]
      else if length s < 256 then [char_of (217 :: nat), char_of (length s)]
      else if length s < 65536 then char_of (218 :: nat) # be_bytes 2 (length s)
      else char_of (219 :: nat) # be_bytes 4 (length s)) @ s"

fun msgpack_dumps :: "jval \<Rightarrow> string"
  and msgpack_items :: "jval list \<Rightarrow> string"
  and msgpack_pairs :: "(string \<times> jval) list \<Rightarrow> string" where
  "msgpack_dumps (JStr s) = msgpack_str s"
| "msgpack_dumps (JList xs) = msgpack_head 144 15 220 221 (length xs) @ msgpack_items xs"
| "msgpack_dumps (JDict kvs) = msgpack_head 128 15 222 223 (length kvs) @ msgpack_pairs kvs"
| "msgpack_items [] = []"
| "msgpack_items (x # xs) = msgpack_dumps x @ msgpack_items xs"
| "msgpack_pairs [] = []"
| "msgpack_pairs ((k, v) # ps) = msgpack_str k @ msgpack_dumps v @ msgpack_pairs ps"

definition cbor_head :: "nat \<Rightarrow> nat \<Rightarrow> string" where
  "cbor_head major n =
     (if n < 24 then [char_of (major * 32 + n)]
      else if n < 256 then [char_of (major * 32 + 24), char_of n]
      else if n < 65536 then char_of (major * 32 + 25) # be_bytes 2 n
      else if n < 4294967296 then char_of (major * 32 + 26) # be_bytes 4 n
      else char_of (major * 32 + 27) # be_bytes 8 n)"

fun cbor_dumps :: "jval \<Rightarrow> string"
  and cbor_items :: "jval list \<Rightarrow> string"
  and cbor_pairs :: "(string \<times> jval) list \<Rightarrow> string" where
  "cbor_dumps (JStr s) = cbor_head 3 (length s) @ s"
| "cbor_dumps (JList xs) = cbor_head 4 (length xs) @ cbor_items xs"
| "cbor_dumps (JDict kvs) = cbor_head 5 (length kvs) @ cbor_pairs kvs"
| "cbor_items [] = []"
| "cbor_items (x # xs) = cbor_dumps x @ cbor_items xs"
| "cbor_pairs [] = []"
| "cbor_pairs ((k, v) # ps) = cbor_head 3 (length k) @ k @ cbor_dumps v @ cbor_pairs ps"


section \<open>Serder: framing of key events\<close>











section \<open>Verfer and Prefixer\<close>


































section \<open>Auxiliary notions for the proofs\<close>






section \<open>Version strings: proofs\<close>

lemma hexval_all: "list_all (\<lambda>k. hexval (hexchars ! k) = Some k) [0..<16]"
  by code_simp

lemma hexval_hexchars: "k < 16 \<Longrightarrow> hexval (hexchars ! k) = Some k"
  using hexval_all by (simp add: list_all_iff)

lemma is_hexlow_hexchars: "k < 16 \<Longrightarrow> is_hexlow (hexchars ! k)"
  unfolding is_hexlow_def by (rule nth_mem) (simp add: hexchars_def)

lemma fmt_x_small: "n < 16 \<Longrightarrow> fmt_x n = [hexchars ! n]"
  by (simp add: fmt_x.simps)

lemma fmt_x_hexlow: "list_all is_hexlow (fmt_x n)"
proof (induction n rule: fmt_x.induct)
  case (1 n)
  show ?case
  proof (cases "n < 16")
    case True
    then show ?thesis by (simp add: fmt_x_small is_hexlow_hexchars)
  next
    case False
    then have "fmt_x n = fmt_x (n div 16) @ [hexchars ! (n mod 16)]"
      by (simp add: fmt_x.simps)
    moreover have "list_all is_hexlow (fmt_x (n div 16))" using 1 False by simp
    ultimately show ?thesis by (simp add: is_hexlow_hexchars)
  qed
qed

lemma fmt_x_length: "0 < k \<Longrightarrow> n < 16 ^ k \<Longrightarrow> length (fmt_x n) \<le> k"
proof (induction n arbitrary: k rule: fmt_x.induct)
  case (1 n)
  show ?case
  proof (cases "n < 16")
    case True
    then show ?thesis using 1(2) by (simp add: fmt_x_small)
  next
    case False
    then have eq: "fmt_x n = fmt_x (n div 16) @ [hexchars ! (n mod 16)]"
      by (simp add: fmt_x.simps)
    from False 1(3) have "1 < k" by (cases "k = 1") (use 1(2) in auto)
    then obtain j where k: "k = Suc j" and j: "0 < j" by (cases k) auto
    from 1(3) k have "n div 16 < 16 ^ j"
      by (simp add: less_mult_imp_div_less mult.commute)
    with 1(1) [OF False j] have "length (fmt_x (n div 16)) \<le> j" by simp
    with eq k show ?thesis by simp
  qed
qed

lemma int16_acc_append:
  "int16_acc (xs @ ys) a = (case int16_acc xs a of None \<Rightarrow> None | Some b \<Rightarrow> int16_acc ys b)"
  by (induction xs arbitrary: a) (auto split: option.splits)

lemma int16_acc_fmt_x: "int16_acc (fmt_x n) 0 = Some n"
proof (induction n rule: fmt_x.induct)
  case (1 n)
  show ?case
  proof (cases "n < 16")
    case True
    then show ?thesis by (simp add: fmt_x_small hexval_hexchars)
  next
    case False
    then have eq: "fmt_x n = fmt_x (n div 16) @ [hexchars ! (n mod 16)]"
      by (simp add: fmt_x.simps)
    have "int16_acc (fmt_x (n div 16)) 0 = Some (n div 16)" using 1 False by simp
    then show ?thesis by (simp add: eq int16_acc_append hexval_hexchars)
  qed
qed

lemma int16_acc_zeros: "int16_acc (replicate k (CHR ''0'') @ s) 0 = int16_acc s 0"
  by (induction k) (simp_all add: hexval_def)

lemma fmt_x_nonempty: "fmt_x n \<noteq> []"
  by (subst fmt_x.simps) simp

lemma int16_fmt_0x: "int16 (fmt_0x w n) = Inr n"
  by (simp add: int16_def fmt_0x_def int16_acc_zeros int16_acc_fmt_x fmt_x_nonempty)

lemma int16_fmt_x: "int16 (fmt_x n) = Inr n"
  by (simp add: int16_def int16_acc_fmt_x fmt_x_nonempty)

lemma fmt_0x_length: "n < 16 ^ 6 \<Longrightarrow> length (fmt_0x 6 n) = 6"
  using fmt_x_length [of 6 n] by (simp add: fmt_0x_def)

lemma fmt_0x_hexlow: "list_all is_hexlow (fmt_0x w n)"
proof -
  have "list_all is_hexlow (replicate k (CHR ''0''))" for k
    by (induction k) (simp_all add: is_hexlow_def hexchars_def)
  then show ?thesis by (simp add: fmt_0x_def fmt_x_hexlow)
qed

lemma Serials_shape: "kind \<in> set Serials \<Longrightarrow> length kind = 4 \<and> list_all is_upper kind"
  by (auto simp: Serials_def is_upper_def)

lemma Rever_match_build:
  assumes "is_hexlow a" "is_hexlow b" "length kind = 4" "list_all is_upper kind"
    "length h = 6" "list_all is_hexlow h"
  shows "Rever_match (''KERI'' @ [a] @ [b] @ kind @ h @ ''_'' @ rest) = Some ([a], [b], kind, h)"
  using assms by (simp add: Rever_match_def nth_append)


lemma is_hexlow_hexval: "is_hexlow c \<Longrightarrow> \<exists>v. hexval c = Some v"
proof -
  assume "is_hexlow c"
  then obtain i where "i < length hexchars" "hexchars ! i = c"
    unfolding is_hexlow_def in_set_conv_nth by blast
  moreover have "length hexchars = 16" by (simp add: hexchars_def)
  ultimately show ?thesis using hexval_hexchars [of i] by auto
qed

lemma int16_hexlow1: "is_hexlow c \<Longrightarrow> \<exists>v. int16 [c] = Inr v"
  using is_hexlow_hexval [of c] by (auto simp: int16_def)

lemma Deversify_no_match: "Rever_match s = None \<Longrightarrow> Deversify s = Inl ValueError"
  by (simp add: Deversify_def)

lemma Rever_match_groups:
  "Rever_match s = Some (a, b, k, h) \<Longrightarrow>
     (\<exists>c. a = [c] \<and> is_hexlow c) \<and> (\<exists>c. b = [c] \<and> is_hexlow c) \<and> length k = 4
       \<and> list_all is_upper k \<and> length h = 6 \<and> list_all is_hexlow h"
  by (auto simp: Rever_match_def split: if_splits)

lemma Deversify_bad_kind:
  assumes "Rever_match s = Some (a, b, k, h)" "k \<notin> set Serials"
  shows "Deversify s = Inl ValueError"
proof -
  from Rever_match_groups [OF assms(1)] obtain c d where "a = [c]" "is_hexlow c" "b = [d]" "is_hexlow d"
    by blast
  then obtain x y where "int16 a = Inr x" "int16 b = Inr y"
    using int16_hexlow1 by blast
  then show ?thesis using assms by (simp add: Deversify_def)
qed

text \<open>
  Claim C8. For a version pair with both components below 16, a kind among \<^verbatim>\<open>JSON\<close>,
  \<^verbatim>\<open>MGPK\<close>, \<^verbatim>\<open>CBOR\<close> and a size below \<open>16 ^ 6\<close>, \<^verbatim>\<open>Versify\<close> returns the 17
  characters \<^verbatim>\<open>KERI\<close>, the major and the minor hex digit, the kind, the size as six hex
  digits and an underscore, and \<^verbatim>\<open>Deversify\<close> of that text returns the kind, the version
  and the size. \<^verbatim>\<open>Deversify\<close> raises \<^verbatim>\<open>ValueError\<close> when the pattern does not match and
  when it matches with a kind outside the three.
\<close>

theorem Versify_Deversify_roundtrip:
  assumes "major < 16" and "minor < 16" and "kind \<in> set Serials" and "sz < 16 ^ 6"
    and "vs = ''KERI'' @ [hexchars ! major, hexchars ! minor] @ kind @ fmt_0x 6 sz @ ''_''"
  shows "Versify V (Some (major, minor)) kind sz = Inr vs
       \<and> length vs = 17
       \<and> length (fmt_0x 6 sz) = 6 \<and> list_all is_hexlow (fmt_0x 6 sz)
       \<and> Rever_match vs = Some ([hexchars ! major], [hexchars ! minor], kind, fmt_0x 6 sz)
       \<and> Deversify vs = Inr (kind, (major, minor), sz)
       \<and> (\<forall>s. Rever_match s = None \<longrightarrow> Deversify s = Inl ValueError)
       \<and> (\<forall>s a b k h. Rever_match s = Some (a, b, k, h) \<and> k \<notin> set Serials
              \<longrightarrow> Deversify s = Inl ValueError)"
proof -
  have k: "length kind = 4" "list_all is_upper kind"
    using Serials_shape [OF assms(3)] by simp_all
  have h: "length (fmt_0x 6 sz) = 6" "list_all is_hexlow (fmt_0x 6 sz)"
    using fmt_0x_length [OF assms(4)] fmt_0x_hexlow by simp_all
  have v: "Versify V (Some (major, minor)) kind sz = Inr vs"
    using assms by (simp add: Versify_def fmt_x_small VERRAWSIZE_def)
  have len: "length vs = 17"
    using k h assms(5) by simp
  have m: "Rever_match vs = Some ([hexchars ! major], [hexchars ! minor], kind, fmt_0x 6 sz)"
    using Rever_match_build [OF is_hexlow_hexchars [OF assms(1)] is_hexlow_hexchars [OF assms(2)] k h, of "[]"]
    by (simp add: assms(5))
  have i: "int16 [hexchars ! major] = Inr major" "int16 [hexchars ! minor] = Inr minor"
    using assms(1,2) by (simp_all add: int16_def hexval_hexchars)
  have d: "Deversify vs = Inr (kind, (major, minor), sz)"
    using assms(3) by (simp add: Deversify_def m i int16_fmt_0x)
  show ?thesis
    using v len h m d Deversify_no_match Deversify_bad_kind by blast
qed

theorem Versify_Deversify_roundtrip_witness:
  "Versify (1, 0) (Some (1, 0)) ''MGPK'' 300 = Inr ''KERI10MGPK00012c_''
   \<and> length ''KERI10MGPK00012c_'' = 17
   \<and> Deversify ''KERI10MGPK00012c_'' = Inr (''MGPK'', (1, 0), 300)
   \<and> Deversify ''KERI10YAML00012c_'' = Inl ValueError
   \<and> Deversify ''KERI1.0JSON00012c_'' = Inl ValueError"
proof -
  have vs: "''KERI10MGPK00012c_'' = ''KERI'' @ [hexchars ! 1, hexchars ! 0] @ ''MGPK'' @ fmt_0x 6 300 @ ''_''"
    by code_simp
  have s: "''MGPK'' \<in> set Serials" "(300::nat) < 16 ^ 6" "(1::nat) < 16" "(0::nat) < 16"
    by (simp_all add: Serials_def)
  have m1: "Rever_match ''KERI10YAML00012c_'' = Some (''1'', ''0'', ''YAML'', ''00012c'')"
    by code_simp
  have m2: "Rever_match ''KERI1.0JSON00012c_'' = None"
    by code_simp
  have y: "''YAML'' \<notin> set Serials" by (simp add: Serials_def)
  from Versify_Deversify_roundtrip [OF s(3) s(4) s(1) s(2) vs, of "(1, 0)"] m1 m2 y
  show ?thesis by blast
qed

section \<open>Crypto material: proofs\<close>

lemma ebind_Inr: "ebind m f = Inr y \<longleftrightarrow> (\<exists>x. m = Inr x \<and> f x = Inr y)"
  by (cases m) simp_all

lemma ebind_Inl: "ebind m f = Inl e \<longleftrightarrow> (m = Inl e \<or> (\<exists>x. m = Inr x \<and> f x = Inl e))"
  by (cases m) simp_all

lemma getitem_Inr: "getitem d k = Inr v \<longleftrightarrow> d k = Some v"
  by (simp add: getitem_def split: option.splits)


lemma tab_one:
  "list_all (\<lambda>cd. case CrySizes cd of None \<Rightarrow> False
       | Some f \<Rightarrow> CryOneSizes cd = Some f \<and> CryRawSizes cd = Some ((f - 1) * 3 div 4)) CryOneDex"
  by code_simp

lemma tab_two:
  "list_all (\<lambda>cd. case CryTwoSizes cd of None \<Rightarrow> True
       | Some f \<Rightarrow> CrySizes cd = Some f \<and> CryRawSizes cd = Some ((f - 2) * 3 div 4)) CryTwoDex"
  by code_simp

lemma tab_four:
  "list_all (\<lambda>cd. case CrySizes cd of None \<Rightarrow> False
       | Some f \<Rightarrow> CryFourSizes cd = Some f \<and> CryRawSizes cd = Some ((f - 4) * 3 div 4)) CryFourDex"
  by code_simp

lemma tab_cnt:
  "list_all (\<lambda>cd. CrySizes cd = Some 4 \<and> CryCntSizes cd = Some 4 \<and> CryRawSizes cd = Some 0
       \<and> CryIdxSizes cd = Some 2) CryCntDex"
  by code_simp

lemma exfil_body_Inr:
  assumes "exfil_body q cs cd idx = Inr m"
  shows "code m = cd \<and> index m = idx
       \<and> (\<exists>full. CrySizes cd = Some full \<and> length q = full \<and> length (raw m) = (full - cs) * 3 div 4)"
  using assms
  by (auto simp: exfil_body_def ebind_Inr getitem_Inr split: if_splits)

lemma exfil_raw_size:
  assumes "exfil q = Inr m"
  shows "CryRawSizes (code m) = Some (length (raw m))"
proof -
  from assms have len: "\<not> length q < MINCRYSIZE"
    by (auto simp: exfil_def split: if_splits)
  from assms len obtain sel where sel: "decode_utf8 (take 1 q) = Inr sel"
    by (auto simp: exfil_def ebind_Inr)
  note ex = assms [unfolded exfil_def, simplified len sel, simplified]
  consider (one) "sel \<in> set CryOneDex"
    | (two) "sel \<notin> set CryOneDex" "sel = CrySelDex_two"
    | (four) "sel \<notin> set CryOneDex" "sel \<noteq> CrySelDex_two" "sel = CrySelDex_four"
    | (dash) "sel \<notin> set CryOneDex" "sel \<noteq> CrySelDex_two" "sel \<noteq> CrySelDex_four" "sel = CrySelDex_dash"
    | (other) "sel \<notin> set CryOneDex" "sel \<noteq> CrySelDex_two" "sel \<noteq> CrySelDex_four" "sel \<noteq> CrySelDex_dash"
    by blast
  then show ?thesis
  proof cases
    case one
    with ex obtain n where "exfil_body (take n q) 1 sel 0 = Inr m"
      by (auto simp: ebind_Inr)
    from exfil_body_Inr [OF this] tab_one one show ?thesis
      by (auto simp: list_all_iff split: option.splits)
  next
    case two
    with ex obtain cd n where "cd \<in> set CryTwoDex" "CryTwoSizes cd = Some n"
        "exfil_body (take n q) 2 cd 0 = Inr m"
      by (auto simp: ebind_Inr getitem_Inr split: if_splits)
    with exfil_body_Inr [OF this(3)] tab_two show ?thesis
      by (auto simp: list_all_iff split: option.splits)
  next
    case four
    with ex obtain cd n where "cd \<in> set CryFourDex"
        "exfil_body (take n q) 4 cd 0 = Inr m"
      by (auto simp: ebind_Inr getitem_Inr split: if_splits)
    with exfil_body_Inr [OF this(2)] tab_four show ?thesis
      by (auto simp: list_all_iff split: option.splits)
  next
    case dash
    with ex obtain cd n i where "cd \<in> set CryCntDex"
        "exfil_body (take n q) 4 cd i = Inr m"
      by (auto simp: ebind_Inr getitem_Inr split: if_splits)
    with exfil_body_Inr [OF this(2)] tab_cnt show ?thesis
      by (auto simp: list_all_iff split: option.splits)
  next
    case other
    with ex show ?thesis by simp
  qed
qed


lemma CryRawSizes_empty: "CryRawSizes [] = None"
  by code_simp

lemma CryMat_init_raw:
  "CryMat_init (Some r) qb64b qb64 qb2 cd idx = Inr m \<longleftrightarrow>
     cd \<noteq> []
     \<and> ((pad r = 1 \<and> cd \<in> set CryOneDex) \<or> (pad r = 2 \<and> cd \<in> set CryTwoDex)
          \<or> (pad r = 0 \<and> cd \<in> set CryFourDex) \<or> (pad r = 0 \<and> cd \<in> set CryCntDex))
     \<and> \<not> (cd \<in> set CryCntDex \<and> (idx < 0 \<or> idx > CRYCNTMAX))
     \<and> (\<exists>n. CryRawSizes cd = Some n \<and> n \<le> length r
            \<and> m = \<lparr>code = cd, index = idx, raw = take n r\<rparr>)"
proof (cases "CryRawSizes cd")
  case None
  then show ?thesis by (simp add: CryMat_init_def getitem_def)
next
  case (Some k)
  then show ?thesis
    by (cases "k \<le> length r") (auto simp: CryMat_init_def getitem_def)
qed

lemma CryMat_init_short:
  assumes "CryRawSizes cd = Some n" and "length r < n"
  shows "CryMat_init (Some r) qb64b qb64 qb2 cd idx = Inl ValidationError"
proof -
  from assms(1) have "cd \<noteq> []" using CryRawSizes_empty by auto
  with assms show ?thesis
    by (simp add: CryMat_init_def getitem_def)
qed

text \<open>
  Claim C10. Every CryMat that is constructed holds raw material of exactly the raw size
  of its code. From raw bytes at least as long as the raw size, whose pad class fits the
  code (and an index in range for a count code), the material is constructed with the
  bytes cut to the raw size, never rejected; from raw bytes shorter than the raw size
  the constructor raises \<^verbatim>\<open>ValidationError\<close>.
\<close>

theorem CryMat_raw_size_invariant:
  "(CryMat_init raw_arg qb64b qb64 qb2 cd idx = Inr m
      \<longrightarrow> CryRawSizes (code m) = Some (length (raw m)))
   \<and> (CryRawSizes cd = Some n \<and> n \<le> length r
        \<and> ((pad r = 1 \<and> cd \<in> set CryOneDex) \<or> (pad r = 2 \<and> cd \<in> set CryTwoDex)
             \<or> (pad r = 0 \<and> cd \<in> set CryFourDex) \<or> (pad r = 0 \<and> cd \<in> set CryCntDex))
        \<and> (cd \<in> set CryCntDex \<longrightarrow> 0 \<le> idx \<and> idx \<le> CRYCNTMAX)
      \<longrightarrow> CryMat_init (Some r) qb64b qb64 qb2 cd idx
            = Inr \<lparr>code = cd, index = idx, raw = take n r\<rparr>)
   \<and> (CryRawSizes cd = Some n \<and> length r < n
      \<longrightarrow> CryMat_init (Some r) qb64b qb64 qb2 cd idx = Inl ValidationError)"
proof (intro conjI impI)
  assume a: "CryMat_init raw_arg qb64b qb64 qb2 cd idx = Inr m"
  show "CryRawSizes (code m) = Some (length (raw m))"
  proof (cases raw_arg)
    case (Some r0)
    with a show ?thesis by (auto simp: CryMat_init_raw)
  next
    case None
    with a have "\<exists>q. exfil q = Inr m"
      by (auto simp: CryMat_init_def split: option.splits)
    then show ?thesis using exfil_raw_size by blast
  qed
next
  assume "CryRawSizes cd = Some n \<and> n \<le> length r
        \<and> ((pad r = 1 \<and> cd \<in> set CryOneDex) \<or> (pad r = 2 \<and> cd \<in> set CryTwoDex)
             \<or> (pad r = 0 \<and> cd \<in> set CryFourDex) \<or> (pad r = 0 \<and> cd \<in> set CryCntDex))
        \<and> (cd \<in> set CryCntDex \<longrightarrow> 0 \<le> idx \<and> idx \<le> CRYCNTMAX)"
  moreover from this have "cd \<noteq> []" using CryRawSizes_empty by auto
  ultimately show "CryMat_init (Some r) qb64b qb64 qb2 cd idx
            = Inr \<lparr>code = cd, index = idx, raw = take n r\<rparr>"
    unfolding CryMat_init_raw by auto
next
  assume "CryRawSizes cd = Some n \<and> length r < n"
  then show "CryMat_init (Some r) qb64b qb64 qb2 cd idx = Inl ValidationError"
    using CryMat_init_short by blast
qed

theorem CryMat_raw_size_invariant_witness:
  "CryRawSizes ''A'' = Some 32
   \<and> CryMat_init (Some (replicate 35 (CHR ''x''))) None None None ''A'' 0
       = Inr \<lparr>code = ''A'', index = 0, raw = replicate 32 (CHR ''x'')\<rparr>
   \<and> CryMat_init (Some (replicate 31 (CHR ''x''))) None None None ''A'' 0 = Inl ValidationError
   \<and> CryMat_init None None (Some ''-AAD'') None ''B'' 0 = Inr \<lparr>code = ''-A'', index = 3, raw = []\<rparr>
   \<and> CryRawSizes ''-A'' = Some 0"
proof -
  have t: "CryRawSizes ''A'' = Some 32" "CryRawSizes ''-A'' = Some 0"
    by code_simp+
  have c: "''A'' \<in> set CryOneDex" "''A'' \<notin> set CryCntDex"
    by (simp_all add: CryOneDex_def CryCntDex_def)
  have p: "pad (replicate 35 (CHR ''x'')) = 1"
    by (simp add: pad_def)
  have e: "CryMat_init None None (Some ''-AAD'') None ''B'' 0 = Inr \<lparr>code = ''-A'', index = 3, raw = []\<rparr>"
    by code_simp
  have "CryMat_init (Some (replicate 35 (CHR ''x''))) None None None ''A'' 0
       = Inr \<lparr>code = ''A'', index = 0, raw = take 32 (replicate 35 (CHR ''x''))\<rparr>"
    using CryMat_raw_size_invariant [of None None None None "''A''" 0 "\<lparr>code = [], index = 0, raw = []\<rparr>" 32 "replicate 35 (CHR ''x'')"] t c p
    by simp
  moreover have "CryMat_init (Some (replicate 31 (CHR ''x''))) None None None ''A'' 0 = Inl ValidationError"
    using CryMat_raw_size_invariant [of None None None None "''A''" 0 "\<lparr>code = [], index = 0, raw = []\<rparr>" 32 "replicate 31 (CHR ''x'')"] t
    by simp
  ultimately show ?thesis using t e by simp
qed

text \<open>
  Claim C7. A CryCounter built with \<^verbatim>\<open>count=3\<close> has the qb64 text \<^verbatim>\<open>-AAD\<close>: the
  two characters of the code, two Base64 digits of the count and no raw material.
  Crypto material built from the qb64 text \<^verbatim>\<open>-AAD\<close>, as a CryMat or as a CryCounter,
  has the code \<^verbatim>\<open>-A\<close>, the index 3 and empty raw bytes.
\<close>

theorem CryCounter_count_framing:
  "CryCounter_init None None None None ''-A'' None (Some 3)
     = Inr \<lparr>code = ''-A'', index = 3, raw = []\<rparr>
   \<and> qb64_of \<lparr>code = ''-A'', index = 3, raw = []\<rparr> = Some (Inr ''-AAD'')
   \<and> length ''-AAD'' = 4
   \<and> CryMat_init None None (Some ''-AAD'') None ''B'' 0
       = Inr \<lparr>code = ''-A'', index = 3, raw = []\<rparr>
   \<and> CryCounter_init None None (Some ''-AAD'') None ''-A'' None None
       = Inr \<lparr>code = ''-A'', index = 3, raw = []\<rparr>"
proof -
  have a: "CryCounter_init None None None None ''-A'' None (Some 3)
     = Inr \<lparr>code = ''-A'', index = 3, raw = []\<rparr>"
    by code_simp
  have b: "qb64_of \<lparr>code = ''-A'', index = 3, raw = []\<rparr> = Some (Inr ''-AAD'')"
    by (simp add: qb64_of_def qb64b_of_def infil_def CryCntDex_def CryIdxSizes_def
        CryCntIdxSizes_def IntToB64_def IntToB64_loop.simps B64ChrByIdx_def b64chars_def
        pad_def slice_to_def)
  have c: "CryMat_init None None (Some ''-AAD'') None ''B'' 0
       = Inr \<lparr>code = ''-A'', index = 3, raw = []\<rparr>"
    by code_simp
  have d: "CryCounter_init None None (Some ''-AAD'') None ''-A'' None None
       = Inr \<lparr>code = ''-A'', index = 3, raw = []\<rparr>"
    by code_simp
  show ?thesis using a b c d by simp
qed

text \<open>
  Claim C1, at a four-character code. The 33 zero bytes and the code \<^verbatim>\<open>1AAA\<close> are a
  valid triple with index 0, and the CryMat is constructed. Its pad is 0, so the slice
  \<^verbatim>\<open>encodeB64(raw)[:-pad]\<close> is \<^verbatim>\<open>[:0]\<close>: the qb64 text is the bare code \<^verbatim>\<open>1AAA\<close>, four
  characters where the size table says 48, and constructing a CryMat from that text
  raises \<^verbatim>\<open>ShortageError\<close>. The round trip does not return the triple.
\<close>

theorem infil_drops_raw_of_four_char_code:
  "CryMat_init (Some (replicate 33 (CHR 0x00))) None None None ''1AAA'' 0
     = Inr \<lparr>code = ''1AAA'', index = 0, raw = replicate 33 (CHR 0x00)\<rparr>
   \<and> CrySizes ''1AAA'' = Some 48
   \<and> qb64_of \<lparr>code = ''1AAA'', index = 0, raw = replicate 33 (CHR 0x00)\<rparr> = Some (Inr ''1AAA'')
   \<and> CryMat_init None None (Some ''1AAA'') None ''B'' 0 = Inl ShortageError"
proof -
  have a: "CryMat_init (Some (replicate 33 (CHR 0x00))) None None None ''1AAA'' 0
     = Inr \<lparr>code = ''1AAA'', index = 0, raw = replicate 33 (CHR 0x00)\<rparr>"
    by code_simp
  have b: "CrySizes ''1AAA'' = Some 48"
    by code_simp
  have c: "qb64_of \<lparr>code = ''1AAA'', index = 0, raw = replicate 33 (CHR 0x00)\<rparr> = Some (Inr ''1AAA'')"
    by (simp add: qb64_of_def qb64b_of_def infil_def CryCntDex_def pad_def slice_to_def)
  have d: "CryMat_init None None (Some ''1AAA'') None ''B'' 0 = Inl ShortageError"
    by code_simp
  show ?thesis using a b c d by simp
qed

section \<open>Thresholds: proofs\<close>

lemma list_all_is_W_Clause: "cls \<noteq> [] \<Longrightarrow> \<not> list_all is_W (map Clause cls)"
  by (cases cls) (simp_all add: is_W_def)

lemma list_ex_is_W_Clause: "\<not> list_ex is_W (map Clause cls)"
  by (induction cls) (simp_all add: is_W_def)

lemma list_all_is_W_W: "list_all is_W (map W ws)"
  by (induction ws) (simp_all add: is_W_def)

lemma weights_of_Clause: "map (weights_of \<circ> Clause) cls = cls"
  by (induction cls) (simp_all add: weights_of_def)

lemma weights_of_W: "concat (map (weights_of \<circ> W) ws) = ws"
  by (induction ws) (simp_all add: weights_of_def)

lemma list_ex_not_all: "list_ex (\<lambda>x. \<not> P x) xs = (\<not> list_all P xs)"
  by (induction xs) simp_all

text \<open>
  Claim C9. The weights of a weighted threshold are parsed into exact rationals
  (\<^typ>\<open>rat\<close>) and summed exactly. Whatever the parser of a weight, a sith whose weights
  all parse is accepted exactly when the sum of every clause is at least 1 and raises
  \<^verbatim>\<open>ValueError\<close> otherwise, and a weight that does not parse raises what the parser
  raises. For an accepted sith the limen is the clauses joined by \<^verbatim>\<open>&\<close>, the weights of
  a clause joined by \<^verbatim>\<open>,\<close>, in their original text. This holds for a list of clauses
  and for a flat list of weights, which is one clause.
\<close>

theorem Tholder_weighted_exact:
  assumes "cls \<noteq> []" and "ws \<noteq> []"
  shows "Tholder_init_with parse (SithIter (map Clause cls)) =
           (case emap (emap parse) cls of
              Inl e \<Rightarrow> Inl e
            | Inr qss \<Rightarrow>
                if list_all (\<lambda>clause. 1 \<le> sum_list clause) qss
                then Inr \<lparr>sith = SithIter (map Clause cls), weighted = True, thold = Weighted qss,
                          tsize = sum_list (map length qss),
                          limen = join ''&'' (map (join '','') cls)\<rparr>
                else Inl ValueError)
       \<and> Tholder_init_with parse (SithIter (map W ws)) =
           (case emap parse ws of
              Inl e \<Rightarrow> Inl e
            | Inr qs \<Rightarrow>
                if 1 \<le> sum_list qs
                then Inr \<lparr>sith = SithIter (map W ws), weighted = True, thold = Weighted [qs],
                          tsize = length qs, limen = join '','' ws\<rparr>
                else Inl ValueError)"
proof
  show "Tholder_init_with parse (SithIter (map Clause cls)) =
           (case emap (emap parse) cls of
              Inl e \<Rightarrow> Inl e
            | Inr qss \<Rightarrow>
                if list_all (\<lambda>clause. 1 \<le> sum_list clause) qss
                then Inr \<lparr>sith = SithIter (map Clause cls), weighted = True, thold = Weighted qss,
                          tsize = sum_list (map length qss),
                          limen = join ''&'' (map (join '','') cls)\<rparr>
                else Inl ValueError)"
    using assms(1)
    by (cases "emap (emap parse) cls")
      (simp_all add: Tholder_init_with_def list_all_is_W_Clause list_ex_is_W_Clause
        weights_of_Clause list_ex_not_all)
next
  from assms(2) have ne: "map W ws \<noteq> []" by simp
  show "Tholder_init_with parse (SithIter (map W ws)) =
           (case emap parse ws of
              Inl e \<Rightarrow> Inl e
            | Inr qs \<Rightarrow>
                if 1 \<le> sum_list qs
                then Inr \<lparr>sith = SithIter (map W ws), weighted = True, thold = Weighted [qs],
                          tsize = length qs, limen = join '','' ws\<rparr>
                else Inl ValueError)"
    using ne
    by (cases "emap parse ws")
      (simp_all add: Tholder_init_with_def list_all_is_W_W weights_of_W)
qed

theorem Tholder_weighted_exact_witness:
  "Fraction ''1/3'' = Inr (1 / 3)
   \<and> Tholder_init (SithIter [Clause [''1/3'', ''1/3'', ''1/3'']]) =
       Inr \<lparr>sith = SithIter [Clause [''1/3'', ''1/3'', ''1/3'']], weighted = True,
            thold = Weighted [[1 / 3, 1 / 3, 1 / 3]], tsize = 3, limen = ''1/3,1/3,1/3''\<rparr>
   \<and> Tholder_init (SithIter [W ''1/3'', W ''1/3'']) = Inl ValueError
   \<and> Tholder_init (SithIter [W ''0.5'', W ''0.5'']) =
       Inr \<lparr>sith = SithIter [W ''0.5'', W ''0.5''], weighted = True,
            thold = Weighted [[1 / 2, 1 / 2]], tsize = 2, limen = ''0.5,0.5''\<rparr>
   \<and> Tholder_init (SithIter [Clause [''1/2'', ''1/2'', ''1/2''], Clause [''1/2'', ''1/2'']]) =
       Inr \<lparr>sith = SithIter [Clause [''1/2'', ''1/2'', ''1/2''], Clause [''1/2'', ''1/2'']],
            weighted = True, thold = Weighted [[1 / 2, 1 / 2, 1 / 2], [1 / 2, 1 / 2]],
            tsize = 5, limen = ''1/2,1/2,1/2&1/2,1/2''\<rparr>"
proof -
  have f: "Fraction ''1/3'' = Inr (1 / 3)" "Fraction ''1/2'' = Inr (1 / 2)"
    "Fraction ''0.5'' = Inr (1 / 2)"
    by code_simp+
  have c: "[[''1/3'', ''1/3'', ''1/3'']] \<noteq> []" "[''1/3'', ''1/3''] \<noteq> []"
    "[[''1/2'', ''1/2'', ''1/2''], [''1/2'', ''1/2'']] \<noteq> []" "[''0.5'', ''0.5''] \<noteq> []"
    by simp_all
  from Tholder_weighted_exact [OF c(1) c(2), of Fraction]
    Tholder_weighted_exact [OF c(3) c(4), of Fraction] f(1)
  show ?thesis
    by (simp add: Tholder_init_def f)
qed

text \<open>
  Claim C2, at a list with a repeated index. The numeric threshold compares
  \<^verbatim>\<open>len(indices)\<close> with the threshold and removes no duplicates: for the sith \<^verbatim>\<open>"2"\<close>
  the indices \<^verbatim>\<open>[0, 1]\<close> satisfy and \<^verbatim>\<open>[0]\<close> does not, as the claim says, but
  \<^verbatim>\<open>[1, 1]\<close>, one distinct index, satisfies too.
\<close>

theorem satisfy_numeric_counts_duplicates:
  "Tholder_init (SithStr ''2'')
     = Inr \<lparr>sith = SithStr ''2'', weighted = False, thold = Numeric 2, tsize = 2, limen = ''2''\<rparr>
   \<and> satisfy \<lparr>sith = SithStr ''2'', weighted = False, thold = Numeric 2, tsize = 2, limen = ''2''\<rparr> [0, 1]
   \<and> \<not> satisfy \<lparr>sith = SithStr ''2'', weighted = False, thold = Numeric 2, tsize = 2, limen = ''2''\<rparr> [0]
   \<and> satisfy \<lparr>sith = SithStr ''2'', weighted = False, thold = Numeric 2, tsize = 2, limen = ''2''\<rparr> [1, 1]
   \<and> card (set [1, 1 :: int]) = 1"
proof -
  have "Tholder_init (SithStr ''2'')
     = Inr \<lparr>sith = SithStr ''2'', weighted = False, thold = Numeric 2, tsize = 2, limen = ''2''\<rparr>"
    by code_simp
  then show ?thesis
    by (simp add: satisfy_def satisfy_numeric_def)
qed

text \<open>
  Claim C6, at a negative index. For the weighted threshold \<^verbatim>\<open>[["1/2", "1/2"]]\<close> of
  size 2 the index \<open>-1\<close> is out of range, but \<^verbatim>\<open>sats[-1] = True\<close> raises nothing: it
  marks the last position, and \<^verbatim>\<open>satisfy([0, -1])\<close> returns \<^verbatim>\<open>True\<close>. An index of 2 or
  more, or below \<open>-2\<close>, raises \<^verbatim>\<open>IndexError\<close> and the result is \<^verbatim>\<open>False\<close>.
\<close>

theorem satisfy_weighted_negative_index:
  "Tholder_init (SithIter [Clause [''1/2'', ''1/2'']])
     = Inr \<lparr>sith = SithIter [Clause [''1/2'', ''1/2'']], weighted = True,
            thold = Weighted [[1 / 2, 1 / 2]], tsize = 2, limen = ''1/2,1/2''\<rparr>
   \<and> satisfy \<lparr>sith = SithIter [Clause [''1/2'', ''1/2'']], weighted = True,
            thold = Weighted [[1 / 2, 1 / 2]], tsize = 2, limen = ''1/2,1/2''\<rparr> [0, - 1]
   \<and> \<not> satisfy \<lparr>sith = SithIter [Clause [''1/2'', ''1/2'']], weighted = True,
            thold = Weighted [[1 / 2, 1 / 2]], tsize = 2, limen = ''1/2,1/2''\<rparr> [0, 2]
   \<and> \<not> satisfy \<lparr>sith = SithIter [Clause [''1/2'', ''1/2'']], weighted = True,
            thold = Weighted [[1 / 2, 1 / 2]], tsize = 2, limen = ''1/2,1/2''\<rparr> [0, - 3]
   \<and> \<not> satisfy \<lparr>sith = SithIter [Clause [''1/2'', ''1/2'']], weighted = True,
            thold = Weighted [[1 / 2, 1 / 2]], tsize = 2, limen = ''1/2,1/2''\<rparr> [0]"
  by code_simp

section \<open>Serder: proofs\<close>






lemma Rever_match_length: "Rever_match t = Some g \<Longrightarrow> 17 \<le> length t"
  by (simp add: Rever_match_def split: if_splits)





























lemma dict_set_same: "map_of (dict_set d k v) k = Some v"
  by (induction d) auto






section \<open>Verfer and Prefixer: proofs\<close>
























end
